theory Spec2Isabelle
  imports Main "HOL-Library.Word"
begin

unbundle bit_operations_syntax

section \<open>The flash layout header legacy/memory.h\<close>

text \<open>
  The header consists of a layout comment (the sector table), object-like macros
  (the region constants), one function-like macro (\<open>FLASH_PTR\<close>, selected by
  \<open>#if EMULATOR\<close>), one preprocessor guard (\<open>#if ... #error\<close>) and two inline
  functions that store through a \<open>volatile\<close> pointer.

  The macros expand to C integer constant expressions of type \<open>int\<close>; all of them
  are far from the limits of a 32-bit \<open>int\<close>, so they are modelled as \<open>int\<close> values.
  Where a macro meets a \<open>uint32_t\<close> operand, C converts it to \<open>uint32_t\<close>; the model
  writes that conversion as \<open>word_of_int\<close>.
\<close>

type_synonym u8 = "8 word"
type_synonym u32 = "32 word"

subsection \<open>The sector table of the layout comment (lines 6 to 23)\<close>

text \<open>One row of the table: sector number, first and last address, size in KiB.\<close>

record sector =
  sector_no :: nat
  range_first :: int
  range_last :: int
  size_kib :: int

definition sector_table :: "sector list" where
  "sector_table =
    [\<lparr>sector_no = 0,  range_first = 0x08000000, range_last = 0x08003FFF, size_kib = 16\<rparr>,
     \<lparr>sector_no = 1,  range_first = 0x08004000, range_last = 0x08007FFF, size_kib = 16\<rparr>,
     \<lparr>sector_no = 2,  range_first = 0x08008000, range_last = 0x0800BFFF, size_kib = 16\<rparr>,
     \<lparr>sector_no = 3,  range_first = 0x0800C000, range_last = 0x0800FFFF, size_kib = 16\<rparr>,
     \<lparr>sector_no = 4,  range_first = 0x08010000, range_last = 0x0801FFFF, size_kib = 64\<rparr>,
     \<lparr>sector_no = 5,  range_first = 0x08020000, range_last = 0x0803FFFF, size_kib = 128\<rparr>,
     \<lparr>sector_no = 6,  range_first = 0x08040000, range_last = 0x0805FFFF, size_kib = 128\<rparr>,
     \<lparr>sector_no = 7,  range_first = 0x08060000, range_last = 0x0807FFFF, size_kib = 128\<rparr>,
     \<lparr>sector_no = 8,  range_first = 0x08080000, range_last = 0x0809FFFF, size_kib = 128\<rparr>,
     \<lparr>sector_no = 9,  range_first = 0x080A0000, range_last = 0x080BFFFF, size_kib = 128\<rparr>,
     \<lparr>sector_no = 10, range_first = 0x080C0000, range_last = 0x080DFFFF, size_kib = 128\<rparr>,
     \<lparr>sector_no = 11, range_first = 0x080E0000, range_last = 0x080FFFFF, size_kib = 128\<rparr>]"

subsection \<open>The macros (lines 25 to 68)\<close>

definition FLASH_ORIGIN :: int where
  "FLASH_ORIGIN = 0x08000000"

definition FLASH_TOTAL_SIZE :: int where
  "FLASH_TOTAL_SIZE = 1024 * 1024"

definition FLASH_APP_START :: int where
  "FLASH_APP_START = 0x08000000"

definition FLASH_APP_LEN :: int where
  "FLASH_APP_LEN = FLASH_TOTAL_SIZE"

definition FLASH_BOOT_START :: int where
  "FLASH_BOOT_START = FLASH_ORIGIN"

definition FLASH_BOOT_LEN :: int where
  "FLASH_BOOT_LEN = 0x0000"

definition FLASH_STORAGE_START :: int where
  "FLASH_STORAGE_START = FLASH_ORIGIN"

definition FLASH_STORAGE_LEN :: int where
  "FLASH_STORAGE_LEN = 0x0000"

definition FLASH_FWHEADER_START :: int where
  "FLASH_FWHEADER_START = FLASH_APP_START"

definition FLASH_FWHEADER_LEN :: int where
  "FLASH_FWHEADER_LEN = 0x0000"

definition FLASH_BOOT_SECTOR_FIRST :: nat where
  "FLASH_BOOT_SECTOR_FIRST = 0"

definition FLASH_BOOT_SECTOR_LAST :: nat where
  "FLASH_BOOT_SECTOR_LAST = 0"

definition FLASH_STORAGE_SECTOR_FIRST :: nat where
  "FLASH_STORAGE_SECTOR_FIRST = 0"

definition FLASH_STORAGE_SECTOR_LAST :: nat where
  "FLASH_STORAGE_SECTOR_LAST = 0"

definition FLASH_CODE_SECTOR_FIRST :: nat where
  "FLASH_CODE_SECTOR_FIRST = 0"

definition FLASH_CODE_SECTOR_LAST :: nat where
  "FLASH_CODE_SECTOR_LAST = 11"

subsection \<open>The preprocessor guard (lines 42 to 45)\<close>

text \<open>
  \<open>#if FLASH_APP_START != 0x08000000\<close> followed by \<open>#error\<close>: translation stops with
  the directive's message when the controlling expression is non-zero. The
  preprocessor evaluates the expression in \<open>intmax_t\<close> and \<open>uintmax_t\<close>, which are 64
  bits wide; \<open>!=\<close> converts a signed operand when the other one is unsigned, so it
  compares the two 64-bit patterns. The guard is therefore a function of the 64-bit
  value its macro has, so that other configurations can be asked about as well; a
  macro whose expansion has the integer value \<open>n\<close> gives \<open>word_of_int n\<close>, which is
  \<open>n\<close> itself for the values \<open>intmax_t\<close> or \<open>uintmax_t\<close> can hold and the wrapped
  value beyond them.
\<close>

datatype build_error = Error_directive string

definition app_start_guard :: "64 word \<Rightarrow> build_error + unit" where
  "app_start_guard app_start =
     (if app_start \<noteq> 0x08000000
      then Inl (Error_directive ''FLASH_APP_START MUST be 0x08000000 for standalone firmware'')
      else Inr ())"

subsection \<open>Properties of a sector list\<close>

text \<open>
  \<open>contiguous_from a ss\<close>: the first sector starts at \<open>a\<close>, no sector is empty, and each
  further sector starts one byte after the end of the one before it.
  \<open>table_end a ss\<close> is the address after the last sector of such a walk.
\<close>

fun contiguous_from :: "int \<Rightarrow> sector list \<Rightarrow> bool" where
  "contiguous_from a [] = True"
| "contiguous_from a (s # ss) =
     (range_first s = a \<and> range_first s \<le> range_last s \<and> contiguous_from (range_last s + 1) ss)"

fun table_end :: "int \<Rightarrow> sector list \<Rightarrow> int" where
  "table_end a [] = a"
| "table_end a (s # ss) = table_end (range_last s + 1) ss"

text \<open>Two sectors share no address.\<close>

definition apart :: "sector \<Rightarrow> sector \<Rightarrow> bool" where
  "apart s t = (range_last s < range_first t \<or> range_last t < range_first s)"

fun pairwise_apart :: "sector list \<Rightarrow> bool" where
  "pairwise_apart [] = True"
| "pairwise_apart (s # ss) = (list_all (apart s) ss \<and> pairwise_apart ss)"

text \<open>The size column agrees with the range column.\<close>

definition size_matches_range :: "sector \<Rightarrow> bool" where
  "size_matches_range s = (range_last s - range_first s + 1 = size_kib s * 1024)"

subsection \<open>Memory, \<open>FLASH_PTR\<close> and the inline write functions (lines 28 to 33, 83 to 89)\<close>

text \<open>
  A pointer to \<open>uint8_t\<close> is the address of a byte. Addresses are integers: pointer
  arithmetic that leaves the addressable range is undefined in C, so no wrap-around
  of pointers is modelled. The header's state is the global \<open>emulator_flash_base\<close>
  (declared only under \<open>#if EMULATOR\<close>, and ignored by the other branch of the model)
  and the byte-addressed memory that the stores go to.
\<close>

type_synonym addr = int

record machine =
  emulator_flash_base :: addr
  mem :: "addr \<Rightarrow> u8"

text \<open>The two branches of \<open>#if EMULATOR\<close>: non-zero, or zero and undefined.\<close>

datatype environment = Emulated | Direct

text \<open>
  \<open>FLASH_PTR(x)\<close> at the argument type of this header, \<open>uint32_t\<close>. In the emulated
  branch \<open>(x) - FLASH_ORIGIN\<close> is a \<open>uint32_t\<close> subtraction (it wraps below the
  origin) whose result is added to the pointer read from the global at this moment.
  In the direct branch the integer is cast to a pointer: the address is its value.
\<close>

fun FLASH_PTR :: "environment \<Rightarrow> machine \<Rightarrow> u32 \<Rightarrow> addr" where
  "FLASH_PTR Emulated s x = emulator_flash_base s + uint (x - word_of_int FLASH_ORIGIN)"
| "FLASH_PTR Direct s x = uint x"

text \<open>
  A \<open>uint32_t\<close> object occupies four consecutive bytes. Which byte holds which bits
  is fixed by the platform, not by the header, so the byte order is a parameter of
  the 32-bit accesses. \<open>byte_of w i\<close> is bits \<open>8 i\<close> to \<open>8 i + 7\<close> of \<open>w\<close>.
\<close>

datatype byte_order = Little_endian | Big_endian

definition byte_of :: "u32 \<Rightarrow> nat \<Rightarrow> u8" where
  "byte_of w i = ucast (drop_bit (8 * i) w)"

definition join_bytes :: "u8 \<Rightarrow> u8 \<Rightarrow> u8 \<Rightarrow> u8 \<Rightarrow> u32" where
  "join_bytes b0 b1 b2 b3 =
     ucast b0 OR push_bit 8 (ucast b1) OR push_bit 16 (ucast b2) OR push_bit 24 (ucast b3)"

fun store_u32 :: "byte_order \<Rightarrow> (addr \<Rightarrow> u8) \<Rightarrow> addr \<Rightarrow> u32 \<Rightarrow> (addr \<Rightarrow> u8)" where
  "store_u32 Little_endian m p w =
     m(p := byte_of w 0, p + 1 := byte_of w 1, p + 2 := byte_of w 2, p + 3 := byte_of w 3)"
| "store_u32 Big_endian m p w =
     m(p := byte_of w 3, p + 1 := byte_of w 2, p + 2 := byte_of w 1, p + 3 := byte_of w 0)"

fun load_u32 :: "byte_order \<Rightarrow> (addr \<Rightarrow> u8) \<Rightarrow> addr \<Rightarrow> u32" where
  "load_u32 Little_endian m p = join_bytes (m p) (m (p + 1)) (m (p + 2)) (m (p + 3))"
| "load_u32 Big_endian m p = join_bytes (m (p + 3)) (m (p + 2)) (m (p + 1)) (m p)"

text \<open>
  \<open>flash_write32\<close> and \<open>flash_write8\<close>: one store through the translated pointer, no
  check of the address. The \<open>volatile\<close> qualifier forbids the compiler to drop or
  reorder the access; in this sequential model every store happens, in order.
\<close>

definition flash_write32 :: "byte_order \<Rightarrow> environment \<Rightarrow> machine \<Rightarrow> u32 \<Rightarrow> u32 \<Rightarrow> machine" where
  "flash_write32 bo env s addr word =
     s\<lparr>mem := store_u32 bo (mem s) (FLASH_PTR env s addr) word\<rparr>"

definition flash_write8 :: "environment \<Rightarrow> machine \<Rightarrow> u32 \<Rightarrow> u8 \<Rightarrow> machine" where
  "flash_write8 env s addr byte = s\<lparr>mem := (mem s)(FLASH_PTR env s addr := byte)\<rparr>"

text \<open>
  The header has no read function. A test harness reads a word back with the
  expression \<open>*(volatile uint32_t *)FLASH_PTR(addr)\<close>, the load that mirrors the store
  of \<open>flash_write32\<close>.
\<close>

definition flash_read32 :: "byte_order \<Rightarrow> environment \<Rightarrow> machine \<Rightarrow> u32 \<Rightarrow> u32" where
  "flash_read32 bo env s addr = load_u32 bo (mem s) (FLASH_PTR env s addr)"

text \<open>The addresses of the flash, and word alignment.\<close>

definition in_flash :: "u32 \<Rightarrow> bool" where
  "in_flash a = (FLASH_ORIGIN \<le> uint a \<and> uint a < FLASH_ORIGIN + FLASH_TOTAL_SIZE)"

definition word_aligned :: "u32 \<Rightarrow> bool" where
  "word_aligned a = (a AND 3 = 0)"

text \<open>States and addresses used as concrete inputs.\<close>

definition erased :: machine where
  "erased = \<lparr>emulator_flash_base = 0x7F0000100000, mem = (\<lambda>_. 0xFF)\<rparr>"

section \<open>The constants\<close>

lemmas flash_macros =
  FLASH_ORIGIN_def FLASH_TOTAL_SIZE_def FLASH_APP_START_def FLASH_APP_LEN_def
  FLASH_BOOT_START_def FLASH_BOOT_LEN_def FLASH_STORAGE_START_def FLASH_STORAGE_LEN_def
  FLASH_FWHEADER_START_def FLASH_FWHEADER_LEN_def
  FLASH_BOOT_SECTOR_FIRST_def FLASH_BOOT_SECTOR_LAST_def
  FLASH_STORAGE_SECTOR_FIRST_def FLASH_STORAGE_SECTOR_LAST_def
  FLASH_CODE_SECTOR_FIRST_def FLASH_CODE_SECTOR_LAST_def

text \<open>
  C1. The sector table has exactly 12 sectors, numbered 0 to 11, of sizes 4 x 16 KiB,
  1 x 64 KiB and 7 x 128 KiB in this order; each size is the length of the sector's
  address range; the sizes sum to \<open>FLASH_TOTAL_SIZE\<close>, which is 1 MiB; the ranges start
  at \<open>FLASH_ORIGIN\<close>, each sector starts one byte after the end of the previous one
  (no gap), no two sectors share an address (no overlap), and the last sector ends at
  0x080FFFFF, the last byte of the flash.
\<close>

theorem sector_table_layout:
  "length sector_table = 12
   \<and> map sector_no sector_table = [0 ..< 12]
   \<and> map size_kib sector_table = replicate 4 16 @ replicate 1 64 @ replicate 7 128
   \<and> list_all size_matches_range sector_table
   \<and> sum_list (map (\<lambda>s. size_kib s * 1024) sector_table) = FLASH_TOTAL_SIZE
   \<and> FLASH_TOTAL_SIZE = 2 ^ 20
   \<and> FLASH_ORIGIN = 0x08000000
   \<and> contiguous_from FLASH_ORIGIN sector_table
   \<and> pairwise_apart sector_table
   \<and> range_last (last sector_table) = 0x080FFFFF
   \<and> table_end FLASH_ORIGIN sector_table = FLASH_ORIGIN + FLASH_TOTAL_SIZE"
  by (simp add: sector_table_def FLASH_ORIGIN_def FLASH_TOTAL_SIZE_def
      size_matches_range_def apart_def upt_rec numeral_eq_Suc)

text \<open>
  An integer that \<open>intmax_t\<close> or \<open>uintmax_t\<close> can hold has the 64-bit pattern of
  0x08000000 only if it is 0x08000000.
\<close>

lemma pp_value_eq_origin:
  fixes n :: int
  assumes "- (2 ^ 63) \<le> n" "n < 2 ^ 64" "(word_of_int n :: 64 word) = 0x08000000"
  shows "n = 0x08000000"
proof -
  from assms(3) have "uint (word_of_int n :: 64 word) = uint (0x08000000 :: 64 word)"
    by (rule arg_cong)
  then have residue: "n mod 2 ^ 64 = 0x08000000"
    by (simp add: uint_word_of_int_eq take_bit_eq_mod)
  show ?thesis
  proof (cases "0 \<le> n")
    case True
    from True assms(2) have "n mod 2 ^ 64 = n"
      by (rule mod_pos_pos_trivial)
    with residue show ?thesis
      by simp
  next
    case False
    with assms(1) have "0 \<le> n + 2 ^ 64" and "n + 2 ^ 64 < 2 ^ 64"
      by simp_all
    then have "(n + 2 ^ 64) mod 2 ^ 64 = n + 2 ^ 64"
      by (rule mod_pos_pos_trivial)
    moreover have "(n + 2 ^ 64) mod 2 ^ 64 = n mod 2 ^ 64"
      by (rule mod_add_self2)
    ultimately have "n + 2 ^ 64 = 0x08000000"
      using residue by (simp only:)
    with assms(1) show ?thesis
      by simp
  qed
qed

text \<open>
  C2. \<open>FLASH_APP_START\<close> equals \<open>FLASH_ORIGIN\<close>, both 0x08000000, so the guard passes
  for the header as written and its \<open>#error\<close> branch is not taken; for every other
  64-bit value of \<open>FLASH_APP_START\<close>, hence for every other integer from \<open>- 2^63\<close> to
  \<open>2^64 - 1\<close> (the values the preprocessor's arithmetic can hold), the guard stops the
  build with the \<open>#error\<close> message.
\<close>

theorem app_start_guard_passes_only_at_origin:
  "FLASH_APP_START = FLASH_ORIGIN
   \<and> FLASH_APP_START = 0x08000000
   \<and> app_start_guard (word_of_int FLASH_APP_START) = Inr ()
   \<and> (\<forall>v. v \<noteq> 0x08000000 \<longrightarrow>
         app_start_guard v =
           Inl (Error_directive ''FLASH_APP_START MUST be 0x08000000 for standalone firmware''))
   \<and> (\<forall>v. app_start_guard v = Inr () \<longrightarrow> v = word_of_int FLASH_ORIGIN)
   \<and> (\<forall>n::int. - (2 ^ 63) \<le> n \<and> n < 2 ^ 64 \<and> n \<noteq> 0x08000000 \<longrightarrow>
         app_start_guard (word_of_int n) =
           Inl (Error_directive ''FLASH_APP_START MUST be 0x08000000 for standalone firmware''))"
proof -
  have "app_start_guard (word_of_int n) =
      Inl (Error_directive ''FLASH_APP_START MUST be 0x08000000 for standalone firmware'')"
    if "- (2 ^ 63) \<le> n \<and> n < 2 ^ 64 \<and> n \<noteq> 0x08000000" for n :: int
  proof -
    from that pp_value_eq_origin [of n] have "(word_of_int n :: 64 word) \<noteq> 0x08000000"
      by auto
    then show ?thesis
      by (simp add: app_start_guard_def)
  qed
  then show ?thesis
    by (simp add: app_start_guard_def FLASH_APP_START_def FLASH_ORIGIN_def)
qed

text \<open>
  Witness for C2: a bootloader-era start address, 0x08008000 (the start of sector 2),
  differs from 0x08000000 and does not build.
\<close>

theorem app_start_guard_witness:
  "(0x08008000 :: 64 word) \<noteq> 0x08000000
   \<and> app_start_guard 0x08008000 =
       Inl (Error_directive ''FLASH_APP_START MUST be 0x08000000 for standalone firmware'')
   \<and> app_start_guard 0x08008000 \<noteq> Inr ()
   \<and> - (2 ^ 63) \<le> (0x08008000 :: int) \<and> (0x08008000 :: int) < 2 ^ 64
   \<and> (0x08008000 :: int) \<noteq> 0x08000000
   \<and> app_start_guard (word_of_int 0x08008000) =
       Inl (Error_directive ''FLASH_APP_START MUST be 0x08000000 for standalone firmware'')"
proof -
  have differs: "(0x08008000 :: 64 word) \<noteq> 0x08000000"
    by simp
  have in_range: "- (2 ^ 63) \<le> (0x08008000 :: int) \<and> (0x08008000 :: int) < 2 ^ 64
      \<and> (0x08008000 :: int) \<noteq> 0x08000000"
    by simp
  from app_start_guard_passes_only_at_origin
  have words: "\<forall>v. v \<noteq> 0x08000000 \<longrightarrow>
         app_start_guard v =
           Inl (Error_directive ''FLASH_APP_START MUST be 0x08000000 for standalone firmware'')"
    and ints: "\<forall>n::int. - (2 ^ 63) \<le> n \<and> n < 2 ^ 64 \<and> n \<noteq> 0x08000000 \<longrightarrow>
         app_start_guard (word_of_int n) =
           Inl (Error_directive ''FLASH_APP_START MUST be 0x08000000 for standalone firmware'')"
    by blast+
  from words differs
  have w: "app_start_guard 0x08008000 =
          Inl (Error_directive ''FLASH_APP_START MUST be 0x08000000 for standalone firmware'')"
    by blast
  from ints in_range
  have i: "app_start_guard (word_of_int 0x08008000) =
          Inl (Error_directive ''FLASH_APP_START MUST be 0x08000000 for standalone firmware'')"
    by blast
  from differs in_range w i show ?thesis
    by simp
qed

text \<open>
  Beyond 64 bits the comparison sees the wrapped value: \<open>2^64 + 0x08000000\<close> has the
  pattern of 0x08000000 and passes the guard.
\<close>

lemma app_start_guard_wraps_at_64_bits:
  "app_start_guard (word_of_int (2 ^ 64 + 0x08000000)) = Inr ()"
  by (simp add: app_start_guard_def)

text \<open>
  C7. The legacy boot region and the legacy storage region both start at the flash
  origin and both have length zero.
\<close>

theorem legacy_regions_empty:
  "FLASH_BOOT_START = FLASH_ORIGIN
   \<and> FLASH_STORAGE_START = FLASH_ORIGIN
   \<and> FLASH_BOOT_LEN = 0
   \<and> FLASH_STORAGE_LEN = 0"
  by (simp add: FLASH_BOOT_START_def FLASH_STORAGE_START_def FLASH_BOOT_LEN_def
      FLASH_STORAGE_LEN_def)

text \<open>
  C8. The firmware region is the whole flash: it starts at the origin and its length
  is the total size, 1 MiB; the code sector range is 0 to 11, which selects every
  sector of the table; and each of the firmware, boot and storage regions starts at
  or after the origin and ends at or before \<open>FLASH_ORIGIN + FLASH_TOTAL_SIZE\<close>.
\<close>

theorem firmware_region_is_whole_flash:
  "FLASH_APP_START = FLASH_ORIGIN
   \<and> FLASH_APP_LEN = FLASH_TOTAL_SIZE
   \<and> FLASH_APP_LEN = 2 ^ 20
   \<and> FLASH_CODE_SECTOR_FIRST = 0
   \<and> FLASH_CODE_SECTOR_LAST = 11
   \<and> filter (\<lambda>s. FLASH_CODE_SECTOR_FIRST \<le> sector_no s \<and> sector_no s \<le> FLASH_CODE_SECTOR_LAST)
        sector_table = sector_table
   \<and> FLASH_ORIGIN \<le> FLASH_APP_START
   \<and> FLASH_APP_START + FLASH_APP_LEN \<le> FLASH_ORIGIN + FLASH_TOTAL_SIZE
   \<and> FLASH_ORIGIN \<le> FLASH_BOOT_START
   \<and> FLASH_BOOT_START + FLASH_BOOT_LEN \<le> FLASH_ORIGIN + FLASH_TOTAL_SIZE
   \<and> FLASH_ORIGIN \<le> FLASH_STORAGE_START
   \<and> FLASH_STORAGE_START + FLASH_STORAGE_LEN \<le> FLASH_ORIGIN + FLASH_TOTAL_SIZE"
  by (simp add: flash_macros sector_table_def)

text \<open>
  C10. The header also defines a firmware-header region that starts at
  \<open>FLASH_APP_START\<close> and has length zero; the boot and the storage sector ranges are
  both 0 to 0, that is sector 0 of the table, and sector 0 lies in the code sector
  range 0 to 11 as well.
\<close>

theorem fwheader_empty_and_legacy_sectors_alias_sector_0:
  "FLASH_FWHEADER_START = FLASH_APP_START
   \<and> FLASH_FWHEADER_LEN = 0
   \<and> FLASH_BOOT_SECTOR_FIRST = 0 \<and> FLASH_BOOT_SECTOR_LAST = 0
   \<and> FLASH_STORAGE_SECTOR_FIRST = 0 \<and> FLASH_STORAGE_SECTOR_LAST = 0
   \<and> map sector_no
        (filter (\<lambda>s. FLASH_BOOT_SECTOR_FIRST \<le> sector_no s \<and> sector_no s \<le> FLASH_BOOT_SECTOR_LAST)
           sector_table) = [0]
   \<and> map sector_no
        (filter (\<lambda>s. FLASH_STORAGE_SECTOR_FIRST \<le> sector_no s
                      \<and> sector_no s \<le> FLASH_STORAGE_SECTOR_LAST)
           sector_table) = [0]
   \<and> FLASH_CODE_SECTOR_FIRST \<le> FLASH_BOOT_SECTOR_FIRST
   \<and> FLASH_BOOT_SECTOR_LAST \<le> FLASH_CODE_SECTOR_LAST
   \<and> FLASH_CODE_SECTOR_FIRST \<le> FLASH_STORAGE_SECTOR_FIRST
   \<and> FLASH_STORAGE_SECTOR_LAST \<le> FLASH_CODE_SECTOR_LAST"
  by (simp add: flash_macros sector_table_def)

section \<open>Address translation\<close>

lemma uint_sub_origin:
  "in_flash x \<Longrightarrow> uint (x - word_of_int FLASH_ORIGIN) = uint x - FLASH_ORIGIN"
  unfolding in_flash_def FLASH_ORIGIN_def FLASH_TOTAL_SIZE_def
  by simp uint_arith

lemma FLASH_PTR_mem_update [simp]:
  "FLASH_PTR env (s\<lparr>mem := m\<rparr>) x = FLASH_PTR env s x"
  by (cases env) simp_all

lemma FLASH_PTR_inj: "FLASH_PTR env s x = FLASH_PTR env s y \<Longrightarrow> x = y"
  by (cases env) (simp_all add: word_uint_eq_iff [symmetric])

text \<open>
  C3. In the emulated environment the translation reads the base pointer at the call:
  in any state \<open>s\<close>, \<open>FLASH_PTR(x)\<close> is the value \<open>emulator_flash_base\<close> has in \<open>s\<close> plus
  the \<open>uint32_t\<close> offset \<open>x - FLASH_ORIGIN\<close>, which for an address \<open>x\<close> of the flash is
  the integer \<open>x - FLASH_ORIGIN\<close>; so right after the base has been set to \<open>b\<close> the
  result is \<open>b + (x - FLASH_ORIGIN)\<close>, and between any two states the results for the
  same \<open>x\<close> differ by exactly the difference of the two bases.
\<close>

theorem FLASH_PTR_reads_base_at_call:
  "FLASH_PTR Emulated s x = emulator_flash_base s + uint (x - word_of_int FLASH_ORIGIN)
   \<and> (in_flash x \<longrightarrow>
        FLASH_PTR Emulated s x = emulator_flash_base s + (uint x - FLASH_ORIGIN)
        \<and> FLASH_PTR Emulated (s\<lparr>emulator_flash_base := b\<rparr>) x = b + (uint x - FLASH_ORIGIN))
   \<and> FLASH_PTR Emulated s' x - FLASH_PTR Emulated s x
        = emulator_flash_base s' - emulator_flash_base s"
  by (simp add: uint_sub_origin)

text \<open>
  Witness for C3: address 0x08000010 of the flash, with the base first at
  0x7F0000100000 and then moved to 0x7F0000300000.
\<close>

theorem FLASH_PTR_reads_base_at_call_witness:
  "in_flash 0x08000010
   \<and> FLASH_PTR Emulated erased 0x08000010 = 0x7F0000100010
   \<and> FLASH_PTR Emulated (erased\<lparr>emulator_flash_base := 0x7F0000300000\<rparr>) 0x08000010
       = 0x7F0000300010"
proof -
  have inside: "in_flash 0x08000010"
    by (simp add: in_flash_def FLASH_ORIGIN_def FLASH_TOTAL_SIZE_def)
  from FLASH_PTR_reads_base_at_call [of erased "0x08000010" "0x7F0000300000" erased] inside
  have "FLASH_PTR Emulated erased 0x08000010
          = emulator_flash_base erased + (uint (0x08000010 :: u32) - FLASH_ORIGIN)"
    and "FLASH_PTR Emulated (erased\<lparr>emulator_flash_base := 0x7F0000300000\<rparr>) 0x08000010
          = 0x7F0000300000 + (uint (0x08000010 :: u32) - FLASH_ORIGIN)"
    by blast+
  with inside show ?thesis
    by (simp add: erased_def FLASH_ORIGIN_def)
qed

text \<open>
  C4. Translating the flash origin gives, in the emulated environment, the base of
  the emulated buffer (the current \<open>emulator_flash_base\<close>, offset 0), and in the direct
  environment the address 0x08000000 itself.
\<close>

theorem FLASH_PTR_at_origin:
  "FLASH_PTR Emulated s (word_of_int FLASH_ORIGIN) = emulator_flash_base s
   \<and> FLASH_PTR Emulated s (word_of_int FLASH_ORIGIN) = emulator_flash_base s + 0
   \<and> FLASH_PTR Direct s (word_of_int FLASH_ORIGIN) = 0x08000000
   \<and> FLASH_PTR Direct s (word_of_int FLASH_ORIGIN) = FLASH_ORIGIN"
  by (simp add: FLASH_ORIGIN_def)

section \<open>The write primitives\<close>

subsection \<open>Bytes of a word\<close>

lemma join_bytes_byte_of:
  "join_bytes (byte_of w 0) (byte_of w 1) (byte_of w 2) (byte_of w 3) = w"
  unfolding join_bytes_def byte_of_def
  apply (rule bit_word_eqI)
  subgoal for n
    by (cases "n < 8"; cases "n < 16"; cases "n < 24") (auto simp add: bit_simps)
  done

lemma load_store_u32: "load_u32 bo (store_u32 bo m p w) p = w"
  using join_bytes_byte_of [of w] by (cases bo) simp_all

lemma store_u32_outside:
  "q < p \<or> p + 3 < q \<Longrightarrow> store_u32 bo m p w q = m q"
  by (cases bo) auto

subsection \<open>Addresses next to an address of the flash\<close>

lemma word_aligned_uint: "word_aligned a \<Longrightarrow> uint a mod 4 = 0"
proof -
  assume "word_aligned a"
  then have "take_bit 2 a = 0"
    by (simp add: word_aligned_def take_bit_eq_mask mask_numeral)
  then have "a mod 4 = 0"
    by (simp add: take_bit_eq_mod)
  then have "uint (a mod 4) = 0"
    by simp
  then show ?thesis
    by (simp add: uint_mod_distrib)
qed

lemma uint_plus_small:
  fixes a k :: u32
  assumes "uint a < 0x08100000" "uint k \<le> 3"
  shows "uint (a + k) = uint a + uint k"
proof -
  have "uint a + uint k < 2 ^ 32"
    using assms by simp
  then show ?thesis
    by (simp add: uint_add_lem [THEN iffD1])
qed


lemma aligned_window_in_flash:
  assumes "in_flash a" "word_aligned a"
  shows "in_flash (a + 1) \<and> in_flash (a + 2) \<and> in_flash (a + 3)"
proof -
  from assms(2) have m: "uint a mod 4 = 0" by (rule word_aligned_uint)
  from assms(1) have lo: "0x08000000 \<le> uint a" and hi: "uint a < 0x08100000"
    by (simp_all add: in_flash_def FLASH_ORIGIN_def FLASH_TOTAL_SIZE_def)
  from m hi have hi3: "uint a + 3 < 0x08100000"
    by presburger
  show ?thesis
    using lo hi3 uint_plus_small [OF hi, of 1] uint_plus_small [OF hi, of 2]
      uint_plus_small [OF hi, of 3]
    by (simp add: in_flash_def FLASH_ORIGIN_def FLASH_TOTAL_SIZE_def)
qed


lemma FLASH_PTR_offset:
  assumes "in_flash a" "uint k \<le> 3"
  shows "FLASH_PTR env s (a + k) = FLASH_PTR env s a + uint k"
proof (cases env)
  case Direct
  from assms(1) have "uint a < 0x08100000"
    by (simp add: in_flash_def FLASH_ORIGIN_def FLASH_TOTAL_SIZE_def)
  with assms(2) Direct show ?thesis
    by (simp add: uint_plus_small)
next
  case Emulated
  from assms(1) have "uint (a - word_of_int FLASH_ORIGIN) < 0x08100000"
    by (simp add: uint_sub_origin) (simp add: in_flash_def FLASH_ORIGIN_def FLASH_TOTAL_SIZE_def)
  then have step: "uint ((a - word_of_int FLASH_ORIGIN) + k)
      = uint (a - word_of_int FLASH_ORIGIN) + uint k"
    using assms(2) by (rule uint_plus_small)
  have shift: "a + k - word_of_int FLASH_ORIGIN = (a - word_of_int FLASH_ORIGIN) + k"
    by simp
  show ?thesis
    unfolding Emulated FLASH_PTR.simps shift step by (simp only: add.assoc)
qed

lemma ptr_window:
  assumes "in_flash a" "FLASH_PTR env s a \<le> FLASH_PTR env s a'"
    "FLASH_PTR env s a' \<le> FLASH_PTR env s a + 3"
  shows "a' = a \<or> a' = a + 1 \<or> a' = a + 2 \<or> a' = a + 3"
proof -
  define d where "d = FLASH_PTR env s a' - FLASH_PTR env s a"
  have step: "a' = a + k" if "uint k \<le> 3" "uint k = d" for k :: u32
  proof -
    from FLASH_PTR_offset [OF assms(1) that(1), of env s] that(2)
    have "FLASH_PTR env s (a + k) = FLASH_PTR env s a'"
      by (simp add: d_def)
    then show ?thesis
      by (rule FLASH_PTR_inj [symmetric])
  qed
  from assms(2,3) have "d = 0 \<or> d = 1 \<or> d = 2 \<or> d = 3"
    unfolding d_def by presburger
  then show ?thesis
  proof (elim disjE)
    assume "d = 0"
    then have "a' = a + 0" by (intro step) simp_all
    then show ?thesis by simp
  next
    assume "d = 1"
    then have "a' = a + 1" by (intro step) simp_all
    then show ?thesis by simp
  next
    assume "d = 2"
    then have "a' = a + 2" by (intro step) simp_all
    then show ?thesis by simp
  next
    assume "d = 3"
    then have "a' = a + 3" by (intro step) simp_all
    then show ?thesis by simp
  qed
qed

subsection \<open>Read-back and frame of the writes\<close>

text \<open>
  C5. For every word-aligned address \<open>a\<close> of the flash and every word \<open>w\<close>,
  \<open>flash_write32(a, w)\<close> followed at once by a 32-bit read at \<open>a\<close> gives \<open>w\<close> (on
  either byte order, as long as the read uses the order of the write), and on a
  little-endian platform the byte at \<open>a + i\<close> is bits \<open>8 i\<close> to \<open>8 i + 7\<close> of \<open>w\<close> for
  \<open>i\<close> from 0 to 3: the flash addresses \<open>a + 1\<close>, \<open>a + 2\<close>, \<open>a + 3\<close> translate to the
  bytes that follow the byte of \<open>a\<close>, and all four lie in the flash.
\<close>

theorem flash_write32_read_back:
  assumes "in_flash a" and "word_aligned a"
  shows "flash_read32 bo env (flash_write32 bo env s a w) a = w
   \<and> mem (flash_write32 Little_endian env s a w) (FLASH_PTR env s a) = byte_of w 0
   \<and> mem (flash_write32 Little_endian env s a w) (FLASH_PTR env s a + 1) = byte_of w 1
   \<and> mem (flash_write32 Little_endian env s a w) (FLASH_PTR env s a + 2) = byte_of w 2
   \<and> mem (flash_write32 Little_endian env s a w) (FLASH_PTR env s a + 3) = byte_of w 3
   \<and> FLASH_PTR env s (a + 1) = FLASH_PTR env s a + 1
   \<and> FLASH_PTR env s (a + 2) = FLASH_PTR env s a + 2
   \<and> FLASH_PTR env s (a + 3) = FLASH_PTR env s a + 3
   \<and> in_flash (a + 3)"
proof -
  have "flash_read32 bo env (flash_write32 bo env s a w) a = w"
    by (simp add: flash_read32_def flash_write32_def load_store_u32)
  moreover have "mem (flash_write32 Little_endian env s a w) (FLASH_PTR env s a) = byte_of w 0"
    and "mem (flash_write32 Little_endian env s a w) (FLASH_PTR env s a + 1) = byte_of w 1"
    and "mem (flash_write32 Little_endian env s a w) (FLASH_PTR env s a + 2) = byte_of w 2"
    and "mem (flash_write32 Little_endian env s a w) (FLASH_PTR env s a + 3) = byte_of w 3"
    by (simp_all add: flash_write32_def)
  moreover have "FLASH_PTR env s (a + 1) = FLASH_PTR env s a + 1"
    and "FLASH_PTR env s (a + 2) = FLASH_PTR env s a + 2"
    and "FLASH_PTR env s (a + 3) = FLASH_PTR env s a + 3"
    using FLASH_PTR_offset [OF assms(1), of 1 env s] FLASH_PTR_offset [OF assms(1), of 2 env s]
      FLASH_PTR_offset [OF assms(1), of 3 env s]
    by simp_all
  moreover have "in_flash (a + 3)"
    using aligned_window_in_flash [OF assms] by simp
  ultimately show ?thesis
    by (simp only: simp_thms)
qed

text \<open>
  Witness for C5: the word 0x11223344 written at 0x08000010 in the emulated
  environment, buffer at 0x7F0000100000, lands as the bytes 44 33 22 11.
\<close>

theorem flash_write32_read_back_witness:
  "in_flash 0x08000010 \<and> word_aligned 0x08000010
   \<and> flash_read32 Little_endian Emulated
        (flash_write32 Little_endian Emulated erased 0x08000010 0x11223344) 0x08000010 = 0x11223344
   \<and> mem (flash_write32 Little_endian Emulated erased 0x08000010 0x11223344) 0x7F0000100010 = 0x44
   \<and> mem (flash_write32 Little_endian Emulated erased 0x08000010 0x11223344) 0x7F0000100011 = 0x33
   \<and> mem (flash_write32 Little_endian Emulated erased 0x08000010 0x11223344) 0x7F0000100012 = 0x22
   \<and> mem (flash_write32 Little_endian Emulated erased 0x08000010 0x11223344) 0x7F0000100013 = 0x11"
proof -
  have inside: "in_flash 0x08000010"
    by (simp add: in_flash_def FLASH_ORIGIN_def FLASH_TOTAL_SIZE_def)
  have aligned: "word_aligned 0x08000010"
    by (simp add: word_aligned_def)
  have ptr: "FLASH_PTR Emulated erased 0x08000010 = 0x7F0000100010"
    by (simp add: erased_def FLASH_ORIGIN_def)
  have bytes: "byte_of 0x11223344 0 = 0x44" "byte_of 0x11223344 1 = 0x33"
    "byte_of 0x11223344 2 = 0x22" "byte_of 0x11223344 3 = 0x11"
    by (simp_all add: byte_of_def)
  note read_back = flash_write32_read_back
    [OF inside aligned, of Little_endian Emulated erased "0x11223344", unfolded ptr bytes]
  from read_back inside aligned show ?thesis
    by simp
qed

text \<open>
  C6. For every address \<open>a\<close> of the flash and every byte \<open>b\<close>, \<open>flash_write8(a, b)\<close>
  sets the byte at \<open>a\<close> to \<open>b\<close> and changes nothing else: every other byte of memory
  keeps its value, in particular the bytes just below and just above, and so does the
  byte of every other flash address, in particular of \<open>a - 1\<close> and \<open>a + 1\<close>; the base
  pointer is not touched.
\<close>

theorem flash_write8_frame:
  assumes "in_flash a"
  shows "mem (flash_write8 env s a b) (FLASH_PTR env s a) = b
   \<and> (\<forall>p. p \<noteq> FLASH_PTR env s a \<longrightarrow> mem (flash_write8 env s a b) p = mem s p)
   \<and> mem (flash_write8 env s a b) (FLASH_PTR env s a - 1) = mem s (FLASH_PTR env s a - 1)
   \<and> mem (flash_write8 env s a b) (FLASH_PTR env s a + 1) = mem s (FLASH_PTR env s a + 1)
   \<and> (\<forall>a'. a' \<noteq> a \<longrightarrow>
         mem (flash_write8 env s a b) (FLASH_PTR env (flash_write8 env s a b) a')
           = mem s (FLASH_PTR env s a'))
   \<and> mem (flash_write8 env s a b) (FLASH_PTR env (flash_write8 env s a b) (a - 1))
        = mem s (FLASH_PTR env s (a - 1))
   \<and> mem (flash_write8 env s a b) (FLASH_PTR env (flash_write8 env s a b) (a + 1))
        = mem s (FLASH_PTR env s (a + 1))
   \<and> emulator_flash_base (flash_write8 env s a b) = emulator_flash_base s"
proof -
  have other: "mem (flash_write8 env s a b) (FLASH_PTR env (flash_write8 env s a b) a')
      = mem s (FLASH_PTR env s a')" if "a' \<noteq> a" for a'
    using that FLASH_PTR_inj [of env s a' a] by (auto simp add: flash_write8_def)
  have "a - 1 \<noteq> a" and "a + 1 \<noteq> a"
    by simp_all
  then show ?thesis
    using other [of "a - 1"] other [of "a + 1"] other
    by (simp add: flash_write8_def)
qed

text \<open>
  Witness for C6: 0x5A written at 0x08000004 of an erased emulated flash; the bytes
  of 0x08000003 and 0x08000005 stay 0xFF.
\<close>

theorem flash_write8_frame_witness:
  "in_flash 0x08000004
   \<and> mem erased (FLASH_PTR Emulated erased 0x08000004) = 0xFF
   \<and> mem (flash_write8 Emulated erased 0x08000004 0x5A) (FLASH_PTR Emulated erased 0x08000004) = 0x5A
   \<and> mem (flash_write8 Emulated erased 0x08000004 0x5A) (FLASH_PTR Emulated erased 0x08000003) = 0xFF
   \<and> mem (flash_write8 Emulated erased 0x08000004 0x5A) (FLASH_PTR Emulated erased 0x08000005) = 0xFF"
proof -
  have inside: "in_flash 0x08000004"
    by (simp add: in_flash_def FLASH_ORIGIN_def FLASH_TOTAL_SIZE_def)
  from flash_write8_frame [OF inside, of Emulated erased "0x5A"]
  show ?thesis
    using inside by (simp add: erased_def FLASH_ORIGIN_def)
qed

text \<open>
  C9. For every word-aligned address \<open>a\<close> of the flash and every word \<open>w\<close>,
  \<open>flash_write32(a, w)\<close> changes at most the four bytes of \<open>a\<close> to \<open>a + 3\<close>, whatever
  the byte order: every byte of memory below or above that window keeps its value, and
  so does the byte of every flash address other than \<open>a\<close>, \<open>a + 1\<close>, \<open>a + 2\<close>, \<open>a + 3\<close>;
  the window lies in the flash and the base pointer is not touched.
\<close>

theorem flash_write32_frame:
  assumes "in_flash a" and "word_aligned a"
  shows "(\<forall>p. p < FLASH_PTR env s a \<or> FLASH_PTR env s a + 3 < p \<longrightarrow>
            mem (flash_write32 bo env s a w) p = mem s p)
   \<and> (\<forall>a'. a' \<noteq> a \<and> a' \<noteq> a + 1 \<and> a' \<noteq> a + 2 \<and> a' \<noteq> a + 3 \<longrightarrow>
         mem (flash_write32 bo env s a w) (FLASH_PTR env (flash_write32 bo env s a w) a')
           = mem s (FLASH_PTR env s a'))
   \<and> in_flash (a + 1) \<and> in_flash (a + 2) \<and> in_flash (a + 3)
   \<and> emulator_flash_base (flash_write32 bo env s a w) = emulator_flash_base s"
proof -
  have outside: "mem (flash_write32 bo env s a w) p = mem s p"
    if "p < FLASH_PTR env s a \<or> FLASH_PTR env s a + 3 < p" for p
    using that by (simp add: flash_write32_def store_u32_outside)
  have other: "mem (flash_write32 bo env s a w) (FLASH_PTR env (flash_write32 bo env s a w) a')
      = mem s (FLASH_PTR env s a')"
    if "a' \<noteq> a \<and> a' \<noteq> a + 1 \<and> a' \<noteq> a + 2 \<and> a' \<noteq> a + 3" for a'
  proof -
    from that ptr_window [OF assms(1), of env s a']
    have "FLASH_PTR env s a' < FLASH_PTR env s a \<or> FLASH_PTR env s a + 3 < FLASH_PTR env s a'"
      by fastforce
    then have "mem (flash_write32 bo env s a w) (FLASH_PTR env s a') = mem s (FLASH_PTR env s a')"
      by (rule outside)
    then show ?thesis
      by (simp add: flash_write32_def)
  qed
  from outside other aligned_window_in_flash [OF assms] show ?thesis
    by (simp add: flash_write32_def)
qed

text \<open>
  Witness for C9: the word 0 written at 0x08000010 of an erased flash in the direct
  environment clears the bytes 0x08000010 to 0x08000013 and leaves 0x0800000F and
  0x08000014 at 0xFF.
\<close>

theorem flash_write32_frame_witness:
  "in_flash 0x08000010 \<and> word_aligned 0x08000010
   \<and> mem (flash_write32 Little_endian Direct erased 0x08000010 0) 0x0800000F = 0xFF
   \<and> mem (flash_write32 Little_endian Direct erased 0x08000010 0) 0x08000010 = 0
   \<and> mem (flash_write32 Little_endian Direct erased 0x08000010 0) 0x08000013 = 0
   \<and> mem (flash_write32 Little_endian Direct erased 0x08000010 0) 0x08000014 = 0xFF
   \<and> mem (flash_write32 Little_endian Direct erased 0x08000010 0)
        (FLASH_PTR Direct erased 0x08000014) = mem erased (FLASH_PTR Direct erased 0x08000014)"
proof -
  have inside: "in_flash 0x08000010"
    by (simp add: in_flash_def FLASH_ORIGIN_def FLASH_TOTAL_SIZE_def)
  have aligned: "word_aligned 0x08000010"
    by (simp add: word_aligned_def)
  from flash_write32_frame [OF inside aligned, of Direct erased Little_endian 0]
  show ?thesis
    using inside aligned by (simp add: erased_def flash_write32_def byte_of_def)
qed

end
